theory Spec2Isabelle
  imports Complex_Main "HOL-Library.Word"
begin

section \<open>Host values\<close>

text \<open>
  A JavaScript string is a sequence of UTF-16 code units; \<open>charCodeAt\<close> reads one unit
  as a number in \<open>0..65535\<close>. Numbers are IEEE doubles in the source; here the
  integer-valued ones are \<open>int\<close> and the others \<open>real\<close>, without rounding.
\<close>

type_synonym jsstring = "16 word list"

definition ascii :: "string \<Rightarrow> jsstring" where
  "ascii s = map (\<lambda>c. of_nat (of_char c)) s"

definition digitUnit :: "nat \<Rightarrow> 16 word" where
  "digitUnit d = of_nat (48 + d)"

text \<open>\<open>String(n)\<close> for a non-negative integer \<open>n\<close>: its decimal digits.\<close>

fun natToString :: "nat \<Rightarrow> jsstring" where
  "natToString n =
     (if n < 10 then [digitUnit n] else natToString (n div 10) @ [digitUnit (n mod 10)])"

declare natToString.simps [simp del]

definition intToString :: "int \<Rightarrow> jsstring" where
  "intToString k = (if k < 0 then ascii ''-'' @ natToString (nat (- k)) else natToString (nat k))"

text \<open>\<open>s.padStart(n, c)\<close> for a one-unit filler \<open>c\<close>.\<close>

definition padStart :: "nat \<Rightarrow> 16 word \<Rightarrow> jsstring \<Rightarrow> jsstring" where
  "padStart n c s = replicate (n - length s) c @ s"

text \<open>
  \<open>x.toFixed(4)\<close> for \<open>\<bar>x\<bar> < 10^21\<close> (above that the host switches to exponent
  notation, which the generator never reaches): the sign, then the integer \<open>n\<close> nearest to
  \<open>\<bar>x\<bar> * 10^4\<close> (the larger one on a tie), written in decimal, padded with zeros to at
  least five digits, with a point before the last four.
\<close>

definition toFixed4 :: "real \<Rightarrow> jsstring" where
  "toFixed4 x =
     (let s = (if x < 0 then ascii ''-'' else []);
          n = nat \<lfloor>\<bar>x\<bar> * 10 ^ 4 + 1 / 2\<rfloor>;
          m = padStart 5 (digitUnit 0) (natToString n);
          k = length m
      in s @ take (k - 4) m @ ascii ''.'' @ drop (k - 4) m)"

text \<open>\<open>xs[i]\<close> for a number \<open>i\<close> that is an integer: \<open>undefined\<close> (None) out of range.\<close>

definition index :: "'a list \<Rightarrow> int \<Rightarrow> 'a option" where
  "index xs i = (if 0 \<le> i \<and> i < int (length xs) then Some (xs ! nat i) else None)"

subsection \<open>Dates\<close>

text \<open>
  A \<open>Date\<close> read in local time: year, month (0 to 11), day of the month (from 1) and the
  time within the day in milliseconds.
\<close>

record JSDate =
  year :: int
  month :: nat
  day :: nat
  msOfDay :: nat

definition isLeap :: "int \<Rightarrow> bool" where
  "isLeap y = (y mod 4 = 0 \<and> (y mod 100 \<noteq> 0 \<or> y mod 400 = 0))"

definition daysInMonth :: "int \<Rightarrow> nat \<Rightarrow> nat" where
  "daysInMonth y m =
     (if m = 1 then (if isLeap y then 29 else 28)
      else if m = 3 \<or> m = 5 \<or> m = 8 \<or> m = 10 then 30 else 31)"


definition nextDay :: "JSDate \<Rightarrow> JSDate" where
  "nextDay d =
     (if day d < daysInMonth (year d) (month d) then d\<lparr>day := day d + 1\<rparr>
      else if month d < 11 then d\<lparr>month := month d + 1, day := 1\<rparr>
      else d\<lparr>year := year d + 1, month := 0, day := 1\<rparr>)"

definition prevDay :: "JSDate \<Rightarrow> JSDate" where
  "prevDay d =
     (if 1 < day d then d\<lparr>day := day d - 1\<rparr>
      else if 0 < month d then d\<lparr>month := month d - 1, day := daysInMonth (year d) (month d - 1)\<rparr>
      else d\<lparr>year := year d - 1, month := 11, day := 31\<rparr>)"

text \<open>
  \<open>d.setDate(n)\<close>: the day numbered \<open>n\<close> counted from the first of \<open>d\<close>'s month, so
  that a number past the end of the month runs into the following months and a number
  below 1 into the preceding ones. The time within the day is kept.
\<close>

definition setDate :: "JSDate \<Rightarrow> int \<Rightarrow> JSDate" where
  "setDate d n =
     (if 1 \<le> n then (nextDay ^^ nat (n - 1)) (d\<lparr>day := 1\<rparr>)
      else (prevDay ^^ nat (1 - n)) (d\<lparr>day := 1\<rparr>))"

definition getDate :: "JSDate \<Rightarrow> int" where
  "getDate d = int (day d)"



section \<open>The report generator (docs/index.tsx)\<close>

datatype Condition = Sunny | Cloudy | Rainy | PartlyCloudy

record DailyForecast =
  date :: JSDate
  lowTemp :: int
  highTemp :: int
  condition :: "Condition option"
  precipitation :: int

record Coordinates =
  lat :: jsstring
  long :: jsstring

record Current =
  temp :: int
  feelsLike :: int
  currentCondition :: "Condition option"
  humidity :: int
  windSpeed :: int
  windDir :: "jsstring option"
  pressure :: int
  visibility :: int
  uvIndex :: int
  dewPoint :: int

record WeatherReportData =
  location :: jsstring
  coordinates :: Coordinates
  generatedAt :: JSDate
  reportId :: jsstring
  current :: Current
  forecast :: "DailyForecast list"

subsection \<open>pseudoRandom\<close>

text \<open>
  \<open>hash << 5\<close>: the number is converted to a 32-bit integer, shifted, and read back as
  a signed 32-bit integer.
\<close>

definition shl5 :: "int \<Rightarrow> int" where
  "shl5 hash = sint (push_bit 5 (word_of_int hash :: 32 word))"

text \<open>One turn of the loop: \<open>hash = seed.charCodeAt(i) + ((hash << 5) - hash)\<close>.\<close>

definition hashStep :: "int \<Rightarrow> 16 word \<Rightarrow> int" where
  "hashStep hash c = uint c + (shl5 hash - hash)"

fun hashLoop :: "int \<Rightarrow> jsstring \<Rightarrow> int" where
  "hashLoop hash [] = hash"
| "hashLoop hash (c # cs) = hashLoop (hashStep hash c) cs"

text \<open>\<open>x % 1\<close>: the remainder has the sign of \<open>x\<close> (the quotient is truncated).\<close>

definition rem1 :: "real \<Rightarrow> real" where
  "rem1 x = x - of_int (if 0 \<le> x then \<lfloor>x\<rfloor> else \<lceil>x\<rceil>)"

definition pseudoRandom :: "jsstring \<Rightarrow> real" where
  "pseudoRandom seed = rem1 \<bar>sin (of_int (hashLoop 0 seed)) * 10000\<bar>"

subsection \<open>generateMockData\<close>

text \<open>
  What the generator reads from its host: \<open>random k\<close> is the text that the \<open>k\<close>-th call
  of \<open>Math.random()\<close> contributes to \<open>location + Math.random()\<close>, \<open>now k\<close> is the
  \<open>k\<close>-th \<open>new Date()\<close>, and \<open>toUpperCase\<close> is the host's case mapping.
\<close>

record Host =
  random :: "nat \<Rightarrow> jsstring"
  now :: "nat \<Rightarrow> JSDate"
  toUpperCase :: "jsstring \<Rightarrow> jsstring"

definition conditions :: "Condition list" where
  "conditions = [Sunny, Cloudy, Rainy, PartlyCloudy]"

definition windDirs :: "jsstring list" where
  "windDirs = map ascii [''N'', ''NE'', ''E'', ''SE'', ''S'', ''SW'', ''W'', ''NW'']"

text \<open>\<open>rng()\<close>, at its \<open>k\<close>-th call.\<close>

definition rng :: "Host \<Rightarrow> jsstring \<Rightarrow> nat \<Rightarrow> real" where
  "rng h loc k = pseudoRandom (loc @ random h k)"

text \<open>\<open>dayRng\<close> of day \<open>i\<close>: \<open>pseudoRandom(location + i)\<close>.\<close>

definition dayRng :: "jsstring \<Rightarrow> nat \<Rightarrow> real" where
  "dayRng loc i = pseudoRandom (loc @ natToString i)"

text \<open>The body of the \<open>map\<close> callback, for index \<open>i\<close>.\<close>

definition forecastDay :: "Host \<Rightarrow> jsstring \<Rightarrow> real \<Rightarrow> nat \<Rightarrow> DailyForecast" where
  "forecastDay h loc baseTemp i =
     (let d = now h i;
          d' = setDate d (getDate d + int i + 1);
          r = dayRng loc i
      in \<lparr> date = d',
           lowTemp = \<lfloor>baseTemp - 5 - r * 5\<rfloor>,
           highTemp = \<lfloor>baseTemp + r * 5\<rfloor>,
           condition = index conditions \<lfloor>r * real (length conditions)\<rfloor>,
           precipitation = \<lfloor>r * 100\<rfloor> \<rparr>)"

definition generateMockData :: "Host \<Rightarrow> jsstring \<Rightarrow> WeatherReportData" where
  "generateMockData h loc =
     (let baseTemp = 15 + rng h loc 0 * 20;
          curCond = index conditions \<lfloor>rng h loc 1 * real (length conditions)\<rfloor>;
          fc = map (forecastDay h loc baseTemp) [0..<7]
      in \<lparr> location = toUpperCase h (take 1 loc) @ drop 1 loc,
           coordinates = \<lparr> lat = toFixed4 (of_int (\<lfloor>rng h loc 2 * 180\<rfloor> - 90)),
                           long = toFixed4 (of_int (\<lfloor>rng h loc 3 * 360\<rfloor> - 180)) \<rparr>,
           generatedAt = now h 7,
           reportId = ascii ''RPT-'' @ padStart 6 (digitUnit 0) (intToString \<lfloor>rng h loc 4 * 1000000\<rfloor>),
           current = \<lparr> temp = \<lfloor>baseTemp\<rfloor>,
                       feelsLike = \<lfloor>baseTemp + rng h loc 5 * 4 - 2\<rfloor>,
                       currentCondition = curCond,
                       humidity = \<lfloor>40 + rng h loc 6 * 50\<rfloor>,
                       windSpeed = \<lfloor>rng h loc 7 * 30\<rfloor>,
                       windDir = index windDirs \<lfloor>rng h loc 8 * 8\<rfloor>,
                       pressure = \<lfloor>980 + rng h loc 9 * 40\<rfloor>,
                       visibility = \<lfloor>5 + rng h loc 10 * 15\<rfloor>,
                       uvIndex = \<lfloor>rng h loc 11 * 11\<rfloor>,
                       dewPoint = \<lfloor>baseTemp - rng h loc 12 * 10\<rfloor> \<rparr>,
           forecast = fc \<rparr>)"

section \<open>The location search page (selection-gated variant)\<close>

subsection \<open>Host functions of the page\<close>

text \<open>The code units that \<open>String.prototype.trim\<close> strips: white space and line terminators.\<close>

definition isWhiteSpace :: "16 word \<Rightarrow> bool" where
  "isWhiteSpace c =
     (let n = unat c
      in (9 \<le> n \<and> n \<le> 13) \<or> n = 32 \<or> n = 160 \<or> n = 5760 \<or> (8192 \<le> n \<and> n \<le> 8202)
         \<or> n = 8232 \<or> n = 8233 \<or> n = 8239 \<or> n = 8287 \<or> n = 12288 \<or> n = 65279)"

definition trim :: "jsstring \<Rightarrow> jsstring" where
  "trim s = rev (dropWhile isWhiteSpace (rev (dropWhile isWhiteSpace s)))"

definition isHighSurrogate :: "16 word \<Rightarrow> bool" where
  "isHighSurrogate c = (55296 \<le> unat c \<and> unat c \<le> 56319)"

definition isLowSurrogate :: "16 word \<Rightarrow> bool" where
  "isLowSurrogate c = (56320 \<le> unat c \<and> unat c \<le> 57343)"

text \<open>
  \<open>encodeURIComponent\<close> throws a URIError on a surrogate that is not half of a pair;
  \<open>encodable s\<close> says that it does not throw on \<open>s\<close>.
\<close>

fun encodable :: "jsstring \<Rightarrow> bool" where
  "encodable [] = True"
| "encodable (c # cs) =
     (if isLowSurrogate c then False
      else if isHighSurrogate c then
        (case cs of [] \<Rightarrow> False | d # ds \<Rightarrow> isLowSurrogate d \<and> encodable ds)
      else encodable cs)"

subsection \<open>State of the page\<close>

text \<open>One place of the search endpoint's JSON answer.\<close>

record CandidateLocation =
  display_name :: jsstring
  api_lat :: jsstring
  api_lon :: jsstring

text \<open>
  \<open>selectedLocation\<close>: the name and the two coordinates, kept here as the texts that
  \<open>parseFloat\<close> reads from the clicked element's data attributes.
\<close>

record SelectedLocation =
  name :: jsstring
  latText :: jsstring
  lonText :: jsstring

text \<open>
  A child of the results container: a result item with its three data attributes
  (name, lat, lon), or the notice \<open>Could not fetch results.\<close>
\<close>

datatype ResultNode = ResultItem jsstring jsstring jsstring | CouldNotFetch

text \<open>The text of the message line.\<close>

datatype Message = NoMessage | GeneratingReportFor SelectedLocation | PleaseSelect

datatype LogEntry = LogFetchError | LogGenerating SelectedLocation | LogNoValidLocation

text \<open>How a request to the search endpoint ends.\<close>

datatype FetchOutcome =
    Rejected                        \<comment> \<open>\<open>fetch\<close> rejects: transport failure\<close>
  | NotOk                           \<comment> \<open>\<open>response.ok\<close> is false\<close>
  | BadBody                         \<comment> \<open>the body is not a JSON array of places\<close>
  | Data "CandidateLocation list"   \<comment> \<open>the places, in order\<close>

record Page =
  inputValue :: jsstring                          \<comment> \<open>\<open>locationInput.value\<close>\<close>
  selectedLocation :: "SelectedLocation option"   \<comment> \<open>None is \<open>null\<close>\<close>
  timeoutId :: "nat option"                       \<comment> \<open>the pending timer of \<open>debounce\<close>: when it is due\<close>
  resultsHtml :: "ResultNode list"                \<comment> \<open>children of \<open>resultsContainer\<close>\<close>
  resultsHidden :: bool                           \<comment> \<open>its class \<open>hidden\<close>\<close>
  messageText :: Message                          \<comment> \<open>\<open>messageOutput.textContent\<close>\<close>
  messageRed :: bool                              \<comment> \<open>class \<open>text-red-500\<close>\<close>
  messageGreen :: bool                            \<comment> \<open>class \<open>text-green-600\<close>\<close>
  searches :: "jsstring list"                     \<comment> \<open>calls of \<open>handleLocationSearch\<close>, by query\<close>
  requests :: "jsstring list"                     \<comment> \<open>calls of \<open>fetch\<close>, by query\<close>
  pending :: "nat list"                           \<comment> \<open>requests not yet settled, by position\<close>
  consoleLog :: "LogEntry list"

text \<open>What happens to the page: each event is handled to completion before the next.\<close>

datatype Event =
    Input jsstring           \<comment> \<open>an edit of the input field, leaving it with this value\<close>
  | Response nat FetchOutcome  \<comment> \<open>the request at this position settles\<close>
  | ClickResult nat          \<comment> \<open>a click on the result item at this position\<close>
  | ClickGenerate
  | ClickInput
  | ClickElsewhere

definition delay :: nat where
  "delay = 300"

subsection \<open>The handlers\<close>

text \<open>
  \<open>handleLocationSearch\<close>, up to the first \<open>await\<close>. A URIError thrown while the endpoint
  is built ends the call with nothing sent.
\<close>

definition handleLocationSearch :: "jsstring \<Rightarrow> Page \<Rightarrow> Page" where
  "handleLocationSearch query s =
     (let s1 = s\<lparr>searches := searches s @ [query]\<rparr>
      in if length query < 3 then s1\<lparr>resultsHtml := [], resultsHidden := True\<rparr>
         else if \<not> encodable query then s1
         else s1\<lparr>requests := requests s1 @ [query],
                 pending := pending s1 @ [length (requests s1)]\<rparr>)"

definition resultItem :: "CandidateLocation \<Rightarrow> ResultNode" where
  "resultItem l = ResultItem (display_name l) (api_lat l) (api_lon l)"

definition displayResults :: "CandidateLocation list \<Rightarrow> Page \<Rightarrow> Page" where
  "displayResults locations s =
     (let s1 = s\<lparr>resultsHtml := []\<rparr>
      in if length locations = 0 then s1\<lparr>resultsHidden := True\<rparr>
         else s1\<lparr>resultsHtml := map resultItem locations, resultsHidden := False\<rparr>)"

text \<open>The rest of \<open>handleLocationSearch\<close>, once its request has settled.\<close>

definition afterFetch :: "FetchOutcome \<Rightarrow> Page \<Rightarrow> Page" where
  "afterFetch outcome s =
     (case outcome of
        Data locations \<Rightarrow> displayResults locations s
      | _ \<Rightarrow> s\<lparr>consoleLog := consoleLog s @ [LogFetchError],
               resultsHtml := [CouldNotFetch], resultsHidden := False\<rparr>)"

text \<open>The click listener of a result item with data attributes \<open>n\<close>, \<open>la\<close>, \<open>lo\<close>.\<close>

definition selectResult :: "jsstring \<Rightarrow> jsstring \<Rightarrow> jsstring \<Rightarrow> Page \<Rightarrow> Page" where
  "selectResult n la lo s =
     s\<lparr>selectedLocation := Some \<lparr>name = n, latText = la, lonText = lo\<rparr>,
       inputValue := n, resultsHtml := [], resultsHidden := True\<rparr>"

text \<open>The listener that \<open>debounce\<close> wraps, run when the timer fires.\<close>

definition onInput :: "Page \<Rightarrow> Page" where
  "onInput s = handleLocationSearch (inputValue s) (s\<lparr>selectedLocation := None\<rparr>)"

text \<open>The function that \<open>debounce\<close> returns, called at time \<open>t\<close>.\<close>

definition debounced :: "nat \<Rightarrow> Page \<Rightarrow> Page" where
  "debounced t s = s\<lparr>timeoutId := Some (t + delay)\<rparr>"

text \<open>The click listener of the generate button.\<close>

definition onGenerate :: "Page \<Rightarrow> Page" where
  "onGenerate s =
     (let s1 = s\<lparr>messageText := NoMessage, messageRed := False, messageGreen := False\<rparr>
      in case selectedLocation s1 of
           Some sel \<Rightarrow> s1\<lparr>consoleLog := consoleLog s1 @ [LogGenerating sel],
                         messageText := GeneratingReportFor sel, messageGreen := True\<rparr>
         | None \<Rightarrow> s1\<lparr>consoleLog := consoleLog s1 @ [LogNoValidLocation],
                      messageText := PleaseSelect, messageRed := True\<rparr>)"

text \<open>The click listener of the document, for a click outside the results and the input.\<close>

definition onDocumentClick :: "Page \<Rightarrow> Page" where
  "onDocumentClick s = s\<lparr>resultsHidden := True\<rparr>"

subsection \<open>The event loop\<close>

text \<open>The timer runs its callback once the time has reached its due time.\<close>

definition tick :: "nat \<Rightarrow> Page \<Rightarrow> Page" where
  "tick t s =
     (case timeoutId s of
        None \<Rightarrow> s
      | Some due \<Rightarrow> if due \<le> t then onInput (s\<lparr>timeoutId := None\<rparr>) else s)"

text \<open>
  One event at time \<open>t\<close>. A child of the results container can be clicked only while
  it is shown. A click on a result item runs its listener and then the document's, which by
  then finds the item detached; a click on the notice stays inside the container and runs
  nothing. A click on the button runs its listener and then the document's. A request
  settles only once.
\<close>

fun step :: "nat \<Rightarrow> Event \<Rightarrow> Page \<Rightarrow> Page" where
  "step t (Input v) s = debounced t (s\<lparr>inputValue := v\<rparr>)"
| "step t (Response k outcome) s =
     (if k \<in> set (pending s) then afterFetch outcome (s\<lparr>pending := removeAll k (pending s)\<rparr>) else s)"
| "step t (ClickResult k) s =
     (if k < length (resultsHtml s) \<and> \<not> resultsHidden s
      then (case resultsHtml s ! k of
              ResultItem n la lo \<Rightarrow> onDocumentClick (selectResult n la lo s)
            | CouldNotFetch \<Rightarrow> s)
      else s)"
| "step t ClickGenerate s = onDocumentClick (onGenerate s)"
| "step t ClickInput s = s"
| "step t ClickElsewhere s = onDocumentClick s"

fun run :: "Page \<Rightarrow> (nat \<times> Event) list \<Rightarrow> Page" where
  "run s [] = s"
| "run s ((t, e) # es) = run (step t e (tick t s)) es"

text \<open>
  The page when the script has run: nothing selected, no timer, nothing sent. The markup is
  not part of the sources; the input and the message are taken empty and the results
  container empty and hidden.
\<close>

definition initialPage :: Page where
  "initialPage =
     \<lparr> inputValue = [], selectedLocation = None, timeoutId = None, resultsHtml = [],
       resultsHidden = True, messageText = NoMessage, messageRed = False, messageGreen = False,
       searches = [], requests = [], pending = [], consoleLog = [] \<rparr>"

text \<open>A burst: each keystroke comes less than \<open>delay\<close> after the one before.\<close>

fun burst :: "(nat \<times> jsstring) list \<Rightarrow> bool" where
  "burst [] = True"
| "burst [k] = True"
| "burst ((t, v) # (t', v') # ks) = (t \<le> t' \<and> t' < t + delay \<and> burst ((t', v') # ks))"

definition keystrokes :: "(nat \<times> jsstring) list \<Rightarrow> (nat \<times> Event) list" where
  "keystrokes ks = map (\<lambda>(t, v). (t, Input v)) ks"

section \<open>Sample inputs\<close>

text \<open>
  A host whose clock reads 27 February 2024 at every call, a second later each time, and
  whose \<open>Math.random()\<close> prints as \<open>0.5\<close>.
\<close>

definition sampleHost :: Host where
  "sampleHost =
     \<lparr> random = (\<lambda>k. ascii ''0.5''),
       now = (\<lambda>k. \<lparr>year = 2024, month = 1, day = 27, msOfDay = 1000 * k\<rparr>),
       toUpperCase = (\<lambda>s. s) \<rparr>"





definition kyoto :: jsstring where
  "kyoto = ascii ''Kyoto''"

text \<open>One place, as the search endpoint answers it.\<close>

definition kyotoPlace :: CandidateLocation where
  "kyotoPlace =
     \<lparr> display_name = ascii ''Kyoto, Japan'', api_lat = ascii ''35.0116'',
       api_lon = ascii ''135.7681'' \<rparr>"

text \<open>
  A session: the user types \<open>kyo\<close>, the search answers with one place, the user picks
  it, types one more character and presses the button a tenth of a second later.
\<close>

definition staleSelectionTrace :: "(nat \<times> Event) list" where
  "staleSelectionTrace =
     [(0, Input (ascii ''kyo'')),
      (400, Response 0 (Data [kyotoPlace])),
      (500, ClickResult 0),
      (1000, Input (ascii ''Kyoto, Japanx'')),
      (1100, ClickGenerate)]"

section \<open>Properties of the generator\<close>

lemma rem1_range: "0 \<le> x \<Longrightarrow> 0 \<le> rem1 x \<and> rem1 x < 1"
  unfolding rem1_def by (simp, linarith)

lemma pseudoRandom_ge0: "0 \<le> pseudoRandom s"
  unfolding pseudoRandom_def using rem1_range [of "\<bar>sin (of_int (hashLoop 0 s)) * 10000\<bar>"] by simp

lemma pseudoRandom_lt1: "pseudoRandom s < 1"
  unfolding pseudoRandom_def using rem1_range [of "\<bar>sin (of_int (hashLoop 0 s)) * 10000\<bar>"] by simp

lemma rng_range: "0 \<le> rng h loc k \<and> rng h loc k < 1"
  unfolding rng_def using pseudoRandom_ge0 pseudoRandom_lt1 by simp

lemma dayRng_range: "0 \<le> dayRng loc i \<and> dayRng loc i < 1"
  unfolding dayRng_def using pseudoRandom_ge0 pseudoRandom_lt1 by simp

lemma floor_scaled:
  "0 \<le> r \<Longrightarrow> r < 1 \<Longrightarrow> 0 < n \<Longrightarrow> 0 \<le> \<lfloor>r * real_of_int n\<rfloor> \<and> \<lfloor>r * real_of_int n\<rfloor> < n"
proof -
  assume r: "0 \<le> r" "r < 1" and n: "0 < n"
  have "0 \<le> r * real_of_int n" using r n by simp
  moreover have "r * real_of_int n < real_of_int n" using r n by simp
  ultimately show ?thesis by (simp add: le_floor_iff floor_less_iff)
qed

subsection \<open>The hash stays exact\<close>

text \<open>
  The loop adds at most \<open>2^31 + 65535\<close> in absolute value per code unit, so for a seed
  shorter than \<open>2^21\<close> units every intermediate value is an integer below \<open>2^53\<close>, which
  a double holds exactly: on such seeds the integer model of the loop is the loop.
\<close>

lemma shl5_bounds: "- 2147483648 \<le> shl5 h \<and> shl5 h < 2147483648"
  unfolding shl5_def
  using sint_ge [of "push_bit 5 (word_of_int h :: 32 word)"]
        sint_lt [of "push_bit 5 (word_of_int h :: 32 word)"] by simp

lemma uint16_bounds: "0 \<le> uint (c :: 16 word) \<and> uint c < 65536"
  using uint_bounded [of c] by simp

lemma hashStep_bound: "\<bar>hashStep h c\<bar> \<le> \<bar>h\<bar> + 2147549183"
  unfolding hashStep_def using shl5_bounds [of h] uint16_bounds [of c] by linarith

lemma hashLoop_bound: "\<bar>hashLoop h s\<bar> \<le> \<bar>h\<bar> + 2147549183 * int (length s)"
proof (induction s arbitrary: h)
  case Nil
  then show ?case by simp
next
  case (Cons c cs)
  have "\<bar>hashLoop (hashStep h c) cs\<bar> \<le> \<bar>hashStep h c\<bar> + 2147549183 * int (length cs)"
    by (rule Cons.IH)
  with hashStep_bound [of h c] show ?case by simp
qed

lemma hashLoop_exact: "length s < 2 ^ 21 \<Longrightarrow> \<bar>hashLoop 0 s\<bar> < 2 ^ 53"
proof -
  assume "length s < 2 ^ 21"
  then have "int (length s) \<le> 2097151" by simp
  then have "2147549183 * int (length s) \<le> 2147549183 * 2097151"
    by (rule mult_left_mono) simp
  with hashLoop_bound [of 0 s] show ?thesis by simp
qed

subsection \<open>Range of the seed function\<close>

text \<open>
  C1. For every seed, the empty one included, \<open>pseudoRandom\<close> returns a value that is at
  least 0 and less than 1. The empty seed hashes to 0 and draws 0. The function is a
  function of the seed alone: it takes no host, so the same seed gives the same value at
  every call.
\<close>

theorem pseudoRandom_unit_interval:
  "0 \<le> pseudoRandom seed \<and> pseudoRandom seed < 1 \<and> hashLoop 0 [] = 0 \<and> pseudoRandom [] = 0"
  using pseudoRandom_ge0 [of seed] pseudoRandom_lt1 [of seed]
  by (simp add: pseudoRandom_def rem1_def)

subsection \<open>Ranges of the current conditions\<close>

lemma humidity_gen: "humidity (current (generateMockData h loc)) = \<lfloor>40 + rng h loc 6 * 50\<rfloor>"
  unfolding generateMockData_def Let_def by simp

lemma uvIndex_gen: "uvIndex (current (generateMockData h loc)) = \<lfloor>rng h loc 11 * 11\<rfloor>"
  unfolding generateMockData_def Let_def by simp

lemma pressure_gen: "pressure (current (generateMockData h loc)) = \<lfloor>980 + rng h loc 9 * 40\<rfloor>"
  unfolding generateMockData_def Let_def by simp

text \<open>
  C5. For every location and every host, the report's humidity is in [40, 90), its UV
  index is an integer in [0, 11) and its pressure is in [980, 1020).
\<close>

theorem current_ranges:
  "40 \<le> humidity (current (generateMockData h loc)) \<and>
   humidity (current (generateMockData h loc)) < 90 \<and>
   0 \<le> uvIndex (current (generateMockData h loc)) \<and>
   uvIndex (current (generateMockData h loc)) < 11 \<and>
   980 \<le> pressure (current (generateMockData h loc)) \<and>
   pressure (current (generateMockData h loc)) < 1020"
proof -
  have hum: "40 \<le> \<lfloor>40 + rng h loc 6 * 50\<rfloor> \<and> \<lfloor>40 + rng h loc 6 * 50\<rfloor> < 90"
    using floor_scaled [of "rng h loc 6" 50] rng_range [of h loc 6]
    by (simp add: le_floor_iff floor_less_iff)
  have uv: "0 \<le> \<lfloor>rng h loc 11 * 11\<rfloor> \<and> \<lfloor>rng h loc 11 * 11\<rfloor> < 11"
    using floor_scaled [of "rng h loc 11" 11] rng_range [of h loc 11] by simp
  have pr: "980 \<le> \<lfloor>980 + rng h loc 9 * 40\<rfloor> \<and> \<lfloor>980 + rng h loc 9 * 40\<rfloor> < 1020"
    using floor_scaled [of "rng h loc 9" 40] rng_range [of h loc 9]
    by (simp add: le_floor_iff floor_less_iff)
  show ?thesis using hum uv pr by (simp only: humidity_gen uvIndex_gen pressure_gen)
qed

subsection \<open>Low and high temperature of a forecast day\<close>

lemma forecast_gen:
  "forecast (generateMockData h loc) = map (forecastDay h loc (15 + rng h loc 0 * 20)) [0..<7]"
  by (simp add: generateMockData_def Let_def)

lemma forecast_nth:
  "i < 7 \<Longrightarrow> forecast (generateMockData h loc) ! i = forecastDay h loc (15 + rng h loc 0 * 20) i"
  by (simp add: forecast_gen del: upt_Suc)

lemma low_high_gap: "0 \<le> r \<Longrightarrow> \<lfloor>b - 5 - r * 5\<rfloor> + 5 \<le> \<lfloor>b + r * (5::real)\<rfloor>"
proof -
  assume r: "0 \<le> r"
  have "\<lfloor>b - 5 - r * 5\<rfloor> + 5 = \<lfloor>b - r * 5\<rfloor>"
  proof -
    have "b - 5 - r * 5 = (b - r * 5) - real_of_int 5" by simp
    then have "\<lfloor>b - 5 - r * 5\<rfloor> = \<lfloor>b - r * 5\<rfloor> - 5" by (simp only: floor_diff_of_int)
    then show ?thesis by simp
  qed
  moreover have "\<lfloor>b - r * 5\<rfloor> \<le> \<lfloor>b + r * 5\<rfloor>" using r by (intro floor_mono) simp
  ultimately show ?thesis by simp
qed

text \<open>
  C10. For every location, every host and every one of the seven forecast entries, the low
  temperature is \<open>floor(base - 5 - dayDraw * 5)\<close> and the high temperature is
  \<open>floor(base + dayDraw * 5)\<close>, where \<open>base\<close> is the report's base temperature and
  \<open>dayDraw\<close> the draw of that day; the high exceeds the low by at least 5, so the low is
  strictly below the high.
\<close>

theorem forecast_low_below_high:
  "\<forall>i<7. lowTemp (forecast (generateMockData h loc) ! i)
            = \<lfloor>15 + rng h loc 0 * 20 - 5 - dayRng loc i * 5\<rfloor> \<and>
          highTemp (forecast (generateMockData h loc) ! i)
            = \<lfloor>15 + rng h loc 0 * 20 + dayRng loc i * 5\<rfloor> \<and>
          lowTemp (forecast (generateMockData h loc) ! i) + 5
            \<le> highTemp (forecast (generateMockData h loc) ! i) \<and>
          lowTemp (forecast (generateMockData h loc) ! i)
            < highTemp (forecast (generateMockData h loc) ! i)"
proof (intro allI impI)
  fix i :: nat
  assume i: "i < 7"
  have gap: "\<lfloor>15 + rng h loc 0 * 20 - 5 - dayRng loc i * 5\<rfloor> + 5
               \<le> \<lfloor>15 + rng h loc 0 * 20 + dayRng loc i * 5\<rfloor>"
    using low_high_gap [of "dayRng loc i" "15 + rng h loc 0 * 20"] dayRng_range [of loc i]
    by simp
  show "lowTemp (forecast (generateMockData h loc) ! i)
            = \<lfloor>15 + rng h loc 0 * 20 - 5 - dayRng loc i * 5\<rfloor> \<and>
          highTemp (forecast (generateMockData h loc) ! i)
            = \<lfloor>15 + rng h loc 0 * 20 + dayRng loc i * 5\<rfloor> \<and>
          lowTemp (forecast (generateMockData h loc) ! i) + 5
            \<le> highTemp (forecast (generateMockData h loc) ! i) \<and>
          lowTemp (forecast (generateMockData h loc) ! i)
            < highTemp (forecast (generateMockData h loc) ! i)"
    using gap by (simp add: forecast_nth [OF i] forecastDay_def Let_def)
qed

theorem forecast_low_below_high_witness:
  "(3::nat) < 7 \<and>
   lowTemp (forecast (generateMockData sampleHost kyoto) ! 3) + 5
     \<le> highTemp (forecast (generateMockData sampleHost kyoto) ! 3) \<and>
   lowTemp (forecast (generateMockData sampleHost kyoto) ! 3)
     < highTemp (forecast (generateMockData sampleHost kyoto) ! 3)"
proof -
  have i: "(3::nat) < 7" by simp
  show ?thesis using i forecast_low_below_high [of sampleHost kyoto, rule_format, OF i] by simp
qed

subsection \<open>Coordinates\<close>

lemma natToString_nonempty: "natToString n \<noteq> []"
  by (subst natToString.simps) simp

lemma natToString_times10: "0 < n \<Longrightarrow> natToString (n * 10) = natToString n @ [digitUnit 0]"
  by (subst natToString.simps) simp

lemma natToString_0: "natToString 0 = [digitUnit 0]"
  by (subst natToString.simps) simp

lemma scaled_floor: "nat \<lfloor>\<bar>real_of_int k\<bar> * 10 ^ 4 + 1 / 2\<rfloor> = nat \<bar>k\<bar> * 10000"
proof -
  have "\<bar>real_of_int k\<bar> * 10 ^ 4 + 1 / 2 = real_of_int (\<bar>k\<bar> * 10000) + 1 / 2" by simp
  then have "\<lfloor>\<bar>real_of_int k\<bar> * 10 ^ 4 + 1 / 2\<rfloor> = \<bar>k\<bar> * 10000"
    by (simp only: floor_eq_iff) simp
  then show ?thesis by (simp add: nat_mult_distrib)
qed


lemma natToString_times10000:
  "0 < n \<Longrightarrow> natToString (n * 10000) = natToString n @ replicate 4 (digitUnit 0)"
proof -
  assume n: "0 < n"
  have e: "n * 10000 = ((((n * 10) * 10) * 10) * 10)" by simp
  have p1: "0 < n * 10" using n by simp
  have p2: "0 < n * 10 * 10" using n by simp
  have p3: "0 < n * 10 * 10 * 10" using n by simp
  have r: "replicate 4 (digitUnit 0) = [digitUnit 0, digitUnit 0, digitUnit 0, digitUnit 0]"
    by (simp add: numeral_eq_Suc)
  show ?thesis
    unfolding e r natToString_times10 [OF p3] natToString_times10 [OF p2]
      natToString_times10 [OF p1] natToString_times10 [OF n] by simp
qed

lemma fixed_digits:
  "padStart 5 (digitUnit 0) (natToString (n * 10000)) = natToString n @ replicate 4 (digitUnit 0)"
proof (cases "n = 0")
  case True
  then show ?thesis by (simp add: natToString_0 padStart_def numeral_eq_Suc)
next
  case False
  then have "0 < n" by simp
  moreover have "1 \<le> length (natToString n)"
    using natToString_nonempty [of n] by (cases "natToString n") simp_all
  ultimately show ?thesis by (simp add: natToString_times10000 padStart_def)
qed


lemma point_zeros: "ascii ''.'' @ replicate 4 (digitUnit 0) = ascii ''.0000''"
  by (simp add: ascii_def digitUnit_def numeral_eq_Suc)

lemma split_digits:
  "take (length (ds @ replicate 4 z) - 4) (ds @ replicate 4 z) = ds \<and>
   drop (length (ds @ replicate 4 z) - 4) (ds @ replicate 4 z) = replicate 4 z"
  by simp

lemma toFixed4_of_int: "toFixed4 (of_int k) = intToString k @ ascii ''.0000''"
proof -
  have sgn: "(real_of_int k < 0) = (k < 0)" by simp
  have "toFixed4 (of_int k) =
          (if k < 0 then ascii ''-'' else []) @ natToString (nat \<bar>k\<bar>) @ ascii ''.'' @ replicate 4 (digitUnit 0)"
    unfolding toFixed4_def scaled_floor fixed_digits Let_def sgn
    by (simp only: split_digits)
  also have "\<dots> = intToString k @ ascii ''.'' @ replicate 4 (digitUnit 0)"
    unfolding intToString_def by (cases "k < 0") simp_all
  finally show ?thesis by (simp only: point_zeros)
qed


lemma lat_gen:
  "lat (coordinates (generateMockData h loc)) = toFixed4 (of_int (\<lfloor>rng h loc 2 * 180\<rfloor> - 90))"
  unfolding generateMockData_def Let_def by simp

lemma long_gen:
  "long (coordinates (generateMockData h loc)) = toFixed4 (of_int (\<lfloor>rng h loc 3 * 360\<rfloor> - 180))"
  unfolding generateMockData_def Let_def by simp

text \<open>
  C4. For every location and every host, the latitude is \<open>floor(draw * 180) - 90\<close> and
  the longitude \<open>floor(draw * 360) - 180\<close>, each printed by \<open>toFixed(4)\<close>. The floor
  is taken before the offset is subtracted, so each number is an integer, in [-90, 90) and
  in [-180, 180): the string is the integer's decimal form followed by \<open>.0000\<close>.
\<close>

theorem coordinates_integral:
  "lat (coordinates (generateMockData h loc))
     = intToString (\<lfloor>rng h loc 2 * 180\<rfloor> - 90) @ ascii ''.0000'' \<and>
   - 90 \<le> \<lfloor>rng h loc 2 * 180\<rfloor> - 90 \<and> \<lfloor>rng h loc 2 * 180\<rfloor> - 90 < 90 \<and>
   long (coordinates (generateMockData h loc))
     = intToString (\<lfloor>rng h loc 3 * 360\<rfloor> - 180) @ ascii ''.0000'' \<and>
   - 180 \<le> \<lfloor>rng h loc 3 * 360\<rfloor> - 180 \<and> \<lfloor>rng h loc 3 * 360\<rfloor> - 180 < 180"
proof -
  have la: "0 \<le> \<lfloor>rng h loc 2 * 180\<rfloor> \<and> \<lfloor>rng h loc 2 * 180\<rfloor> < 180"
    using floor_scaled [of "rng h loc 2" 180] rng_range [of h loc 2] by simp
  have lo: "0 \<le> \<lfloor>rng h loc 3 * 360\<rfloor> \<and> \<lfloor>rng h loc 3 * 360\<rfloor> < 360"
    using floor_scaled [of "rng h loc 3" 360] rng_range [of h loc 3] by simp
  have s1: "lat (coordinates (generateMockData h loc))
     = intToString (\<lfloor>rng h loc 2 * 180\<rfloor> - 90) @ ascii ''.0000''"
    by (simp only: lat_gen toFixed4_of_int)
  have s2: "long (coordinates (generateMockData h loc))
     = intToString (\<lfloor>rng h loc 3 * 360\<rfloor> - 180) @ ascii ''.0000''"
    by (simp only: long_gen toFixed4_of_int)
  from la lo s1 s2 show ?thesis by linarith
qed

subsection \<open>Dates of the forecast\<close>




























subsection \<open>Call-time entropy\<close>





































section \<open>Properties of the search page\<close>

subsection \<open>Debounce\<close>

lemma tick_not_due:
  "timeoutId s = Some due \<Longrightarrow> t < due \<Longrightarrow> tick t s = s"
  by (simp add: tick_def)

lemma tick_no_timer: "timeoutId s = None \<Longrightarrow> tick t s = s"
  by (simp add: tick_def)

lemma tick_due:
  "timeoutId s = Some due \<Longrightarrow> due \<le> t \<Longrightarrow> tick t s = onInput (s\<lparr>timeoutId := None\<rparr>)"
  by (simp add: tick_def)

lemma key_sets_timer:
  "timeoutId s = None \<or> (\<exists>due. timeoutId s = Some due \<and> t < due) \<Longrightarrow>
   step t (Input v) (tick t s) = s\<lparr>inputValue := v, timeoutId := Some (t + delay)\<rparr>"
  by (auto simp: tick_def debounced_def)

lemma run_burst:
  "ks \<noteq> [] \<Longrightarrow> burst ks \<Longrightarrow>
   timeoutId s = None \<or> (\<exists>due. timeoutId s = Some due \<and> fst (hd ks) < due) \<Longrightarrow>
   run s (keystrokes ks) = s\<lparr>inputValue := snd (last ks), timeoutId := Some (fst (last ks) + delay)\<rparr>"
proof (induction ks arbitrary: s rule: burst.induct)
  case 1
  then show ?case by simp
next
  case (2 k)
  obtain t v where k: "k = (t, v)" by (cases k)
  from "2.prems"(3) have "step t (Input v) (tick t s) = s\<lparr>inputValue := v, timeoutId := Some (t + delay)\<rparr>"
    unfolding k by (intro key_sets_timer) simp
  then show ?case by (simp add: k keystrokes_def)
next
  case (3 t v t' v' ks)
  let ?s1 = "s\<lparr>inputValue := v, timeoutId := Some (t + delay)\<rparr>"
  from "3.prems"(3) have s1: "step t (Input v) (tick t s) = ?s1"
    by (intro key_sets_timer) simp
  have b: "burst ((t', v') # ks)" and lt: "t' < t + delay" using "3.prems"(2) by simp_all
  have "run ?s1 (keystrokes ((t', v') # ks)) =
          ?s1\<lparr>inputValue := snd (last ((t', v') # ks)), timeoutId := Some (fst (last ((t', v') # ks)) + delay)\<rparr>"
    using b lt by (intro "3.IH") simp_all
  then show ?case using s1 by (simp add: keystrokes_def)
qed


lemma searches_handleLocationSearch:
  "searches (handleLocationSearch q s) = searches s @ [q]"
  by (simp add: handleLocationSearch_def Let_def)

lemma timeoutId_handleLocationSearch:
  "timeoutId (handleLocationSearch q s) = timeoutId s"
  by (simp add: handleLocationSearch_def Let_def)

text \<open>
  C7. For every burst of keystrokes, each less than 300 ms after the one before, starting
  with no timer pending: nothing is searched before 300 ms have passed since the last
  keystroke, and once they have passed exactly one search has been made, for the value
  that the last keystroke left in the input; no timer is left pending.
\<close>

theorem debounce_one_search:
  assumes ne: "ks \<noteq> []" and b: "burst ks" and quiet: "timeoutId s = None"
  shows "(\<forall>T. fst (last ks) + delay \<le> T \<longrightarrow>
            searches (tick T (run s (keystrokes ks))) = searches s @ [snd (last ks)] \<and>
            timeoutId (tick T (run s (keystrokes ks))) = None) \<and>
         (\<forall>T. T < fst (last ks) + delay \<longrightarrow>
            searches (tick T (run s (keystrokes ks))) = searches s)"
proof -
  let ?s' = "s\<lparr>inputValue := snd (last ks), timeoutId := Some (fst (last ks) + delay)\<rparr>"
  have r: "run s (keystrokes ks) = ?s'" using ne b quiet by (intro run_burst) simp_all
  have late: "searches (tick T ?s') = searches s @ [snd (last ks)] \<and> timeoutId (tick T ?s') = None"
    if "fst (last ks) + delay \<le> T" for T
    using that
    by (simp add: tick_def onInput_def searches_handleLocationSearch timeoutId_handleLocationSearch)
  have early: "searches (tick T ?s') = searches s" if "T < fst (last ks) + delay" for T
    using that by (simp add: tick_def)
  show ?thesis unfolding r using late early by blast
qed

theorem debounce_one_search_witness:
  "searches (tick 500 (run initialPage (keystrokes [(0, ascii ''k''), (100, ascii ''ky''), (200, ascii ''kyo'')])))
     = [ascii ''kyo''] \<and>
   searches (tick 499 (run initialPage (keystrokes [(0, ascii ''k''), (100, ascii ''ky''), (200, ascii ''kyo'')])))
     = []"
proof -
  have ne: "[(0::nat, ascii ''k''), (100, ascii ''ky''), (200, ascii ''kyo'')] \<noteq> []" by simp
  have b: "burst [(0, ascii ''k''), (100, ascii ''ky''), (200, ascii ''kyo'')]"
    by (simp add: delay_def)
  have q: "timeoutId initialPage = None" by (simp add: initialPage_def)
  have e: "searches initialPage = []" by (simp add: initialPage_def)
  show ?thesis
    using debounce_one_search [OF ne b q] e by (simp add: delay_def)
qed

subsection \<open>Outcome of a search\<close>

text \<open>
  C8. When a pending request settles with zero places, the list is emptied and hidden and
  the notice is not shown. When it settles by a transport failure, a non-success status or
  an unreadable body, the list is replaced by the notice \<open>Could not fetch results.\<close>,
  which is shown, and the failure is logged. In neither case is a request sent or a timer
  set: there is no retry.
\<close>

theorem search_outcomes:
  assumes k: "k \<in> set (pending s)"
  shows "resultsHtml (step t (Response k (Data [])) s) = [] \<and>
         resultsHidden (step t (Response k (Data [])) s) \<and>
         requests (step t (Response k (Data [])) s) = requests s \<and>
         timeoutId (step t (Response k (Data [])) s) = timeoutId s \<and>
         pending (step t (Response k (Data [])) s) = removeAll k (pending s) \<and>
         (\<forall>outcome \<in> {Rejected, NotOk, BadBody}.
            resultsHtml (step t (Response k outcome) s) = [CouldNotFetch] \<and>
            \<not> resultsHidden (step t (Response k outcome) s) \<and>
            consoleLog (step t (Response k outcome) s) = consoleLog s @ [LogFetchError] \<and>
            requests (step t (Response k outcome) s) = requests s \<and>
            timeoutId (step t (Response k outcome) s) = timeoutId s \<and>
            pending (step t (Response k outcome) s) = removeAll k (pending s))"
  using k by (simp add: afterFetch_def displayResults_def)

theorem search_outcomes_witness:
  "0 \<in> set (pending (tick 300 (run initialPage [(0, Input (ascii ''kyo''))]))) \<and>
   resultsHtml (step 400 (Response 0 (Data [])) (tick 300 (run initialPage [(0, Input (ascii ''kyo''))]))) = [] \<and>
   resultsHidden (step 400 (Response 0 (Data [])) (tick 300 (run initialPage [(0, Input (ascii ''kyo''))]))) \<and>
   resultsHtml (step 400 (Response 0 NotOk) (tick 300 (run initialPage [(0, Input (ascii ''kyo''))])))
     = [CouldNotFetch] \<and>
   \<not> resultsHidden (step 400 (Response 0 NotOk) (tick 300 (run initialPage [(0, Input (ascii ''kyo''))]))) \<and>
   requests (step 400 (Response 0 NotOk) (tick 300 (run initialPage [(0, Input (ascii ''kyo''))])))
     = [ascii ''kyo'']"
proof -
  let ?s = "tick 300 (run initialPage [(0, Input (ascii ''kyo''))])"
  have p: "0 \<in> set (pending ?s)"
    by (simp add: initialPage_def tick_def debounced_def onInput_def handleLocationSearch_def
          Let_def delay_def ascii_def isLowSurrogate_def isHighSurrogate_def)
  have r: "requests ?s = [ascii ''kyo'']"
    by (simp add: initialPage_def tick_def debounced_def onInput_def handleLocationSearch_def
          Let_def delay_def ascii_def isLowSurrogate_def isHighSurrogate_def)
  show ?thesis using p r search_outcomes [OF p, of 400] by simp
qed

subsection \<open>Length threshold of a search\<close>

text \<open>
  C9, as the code has it. The threshold is on the length of the query as typed, not on its
  trimmed length. After a keystroke with no timer pending and 300 ms of quiet: a query of
  fewer than 3 code units sends no request and leaves the list empty and hidden; a query
  of 3 or more code units that \<open>encodeURIComponent\<close> accepts sends exactly one request,
  for that query; one that it rejects sends none. Before the 300 ms have passed nothing is
  sent.
\<close>

theorem search_threshold:
  assumes quiet: "timeoutId s = None" and late: "t + delay \<le> T"
  shows "(\<forall>T'. T' < t + delay \<longrightarrow> requests (tick T' (run s [(t, Input q)])) = requests s) \<and>
         (length q < 3 \<longrightarrow>
            requests (tick T (run s [(t, Input q)])) = requests s \<and>
            resultsHtml (tick T (run s [(t, Input q)])) = [] \<and>
            resultsHidden (tick T (run s [(t, Input q)]))) \<and>
         (3 \<le> length q \<and> encodable q \<longrightarrow>
            requests (tick T (run s [(t, Input q)])) = requests s @ [q]) \<and>
         (3 \<le> length q \<and> \<not> encodable q \<longrightarrow>
            requests (tick T (run s [(t, Input q)])) = requests s)"
  using quiet late
  by (simp add: tick_def debounced_def onInput_def handleLocationSearch_def Let_def)

theorem search_threshold_witness:
  "requests (tick 300 (run initialPage [(0, Input (ascii ''kyo''))])) = [ascii ''kyo''] \<and>
   requests (tick 300 (run initialPage [(0, Input (ascii ''ky''))])) = [] \<and>
   resultsHidden (tick 300 (run initialPage [(0, Input (ascii ''ky''))]))"
proof -
  have q: "timeoutId initialPage = None" by (simp add: initialPage_def)
  have l: "(0::nat) + delay \<le> 300" by (simp add: delay_def)
  have e: "requests initialPage = []" by (simp add: initialPage_def)
  have c: "encodable (ascii ''kyo'')"
    by (simp add: ascii_def isLowSurrogate_def isHighSurrogate_def)
  show ?thesis
    using search_threshold [OF q l, of "ascii ''kyo''"] search_threshold [OF q l, of "ascii ''ky''"]
      e c by (simp add: ascii_def)
qed

text \<open>
  C9, as stated, fails: the query \<open>ky\<close> followed by a space has trimmed length 2, and it
  is sent to the endpoint.
\<close>

theorem trimmed_query_counterexample:
  "length (trim (ascii ''ky '')) < 3 \<and>
   requests (tick 300 (run initialPage [(0, Input (ascii ''ky ''))])) = [ascii ''ky '']"
  by (simp add: trim_def ascii_def isWhiteSpace_def initialPage_def tick_def debounced_def
        onInput_def handleLocationSearch_def Let_def delay_def isLowSurrogate_def
        isHighSurrogate_def)

subsection \<open>Selection and further typing\<close>

text \<open>
  C6 at a concrete session. The user picks a place, types one more character and presses the
  button 100 ms later. The listener that clears the selection is the debounced one, so it
  has not run yet: the selection is still held, the input no longer shows it, and the page
  announces a report for the selected place instead of asking for a selection.
\<close>

theorem stale_selection_generates:
  "selectedLocation (run initialPage staleSelectionTrace)
     = Some \<lparr>name = ascii ''Kyoto, Japan'', latText = ascii ''35.0116'', lonText = ascii ''135.7681''\<rparr> \<and>
   inputValue (run initialPage staleSelectionTrace) = ascii ''Kyoto, Japanx'' \<and>
   messageText (run initialPage staleSelectionTrace)
     = GeneratingReportFor
         \<lparr>name = ascii ''Kyoto, Japan'', latText = ascii ''35.0116'', lonText = ascii ''135.7681''\<rparr> \<and>
   messageText (run initialPage staleSelectionTrace) \<noteq> PleaseSelect"
  by (simp add: staleSelectionTrace_def initialPage_def kyotoPlace_def tick_def debounced_def
        onInput_def handleLocationSearch_def Let_def delay_def isLowSurrogate_def
        isHighSurrogate_def ascii_def afterFetch_def displayResults_def resultItem_def
        selectResult_def onDocumentClick_def onGenerate_def)

text \<open>
  Once the 300 ms have passed, the debounced listener has run: the selection is gone, and the
  button asks for a selection.
\<close>

lemma selection_cleared_after_delay:
  assumes "timeoutId s = None" and "t + delay \<le> T"
  shows "selectedLocation (tick T (run s [(t, Input v)])) = None \<and>
         messageText (run s [(t, Input v), (T, ClickGenerate)]) = PleaseSelect \<and>
         messageRed (run s [(t, Input v), (T, ClickGenerate)])"
  using assms
  by (simp add: tick_def debounced_def onInput_def handleLocationSearch_def Let_def
        onGenerate_def onDocumentClick_def)

end
